theory Spec2Isabelle
  imports Complex_Main "HOL-Library.Word" "HOL-Library.Monad_Syntax"
begin

section \<open>The C double: IEEE 754 binary64, round to nearest even\<close>

text \<open>
  \<^verbatim>\<open>integrator_janus.c\<close> computes with C \<^verbatim>\<open>double\<close> values. A double is modelled by its
  IEEE 754 binary64 datum: a finite number \<open>DFin s m e\<close> stands for \<open>(-1)^s * m * 2^e\<close> with
  \<open>m < 2^53\<close>, \<open>-1074 \<le> e \<le> 971\<close>, and \<open>2^52 \<le> m\<close> unless \<open>e = -1074\<close> (subnormals and the
  two zeros); \<open>DInf s\<close> is a signed infinity; all NaNs are one value \<open>DNaN\<close> (the program never
  looks at a payload). Arithmetic is evaluated in binary64 with the default rounding mode
  (\<^verbatim>\<open>FLT_EVAL_METHOD\<close> 0), every operation rounding its exact result once.
\<close>

datatype double = DFin bool nat int | DInf bool | DNaN

text \<open>
  The number of binary digits of \<open>n\<close>, counted by shifting \<open>n\<close> right until nothing is
  left (by 64, 16 and 4 places while that many digits remain, then by one).
\<close>

fun bitlen_from :: "nat \<Rightarrow> nat \<Rightarrow> nat" where
  "bitlen_from k n =
     (if n = 0 then k
      else if 2 ^ 64 \<le> n then bitlen_from (k + 64) (n div 2 ^ 64)
      else if 2 ^ 16 \<le> n then bitlen_from (k + 16) (n div 2 ^ 16)
      else if 2 ^ 4 \<le> n then bitlen_from (k + 4) (n div 2 ^ 4)
      else bitlen_from (k + 1) (n div 2))"

declare bitlen_from.simps [simp del]

definition bitlen :: "nat \<Rightarrow> nat" where
  "bitlen n = bitlen_from 0 n"

text \<open>\<open>quot_at e p q\<close> is the fraction \<open>(p / q) / 2^e\<close> as numerator and denominator.\<close>

definition quot_at :: "int \<Rightarrow> nat \<Rightarrow> nat \<Rightarrow> nat \<times> nat" where
  "quot_at e p q = (if 0 \<le> e then (p, q * 2 ^ nat e) else (p * 2 ^ nat (- e), q))"

text \<open>The integer nearest to \<open>P / Q\<close>, a tie going to the even neighbour.\<close>

definition nearest_even :: "nat \<Rightarrow> nat \<Rightarrow> nat \<Rightarrow> nat" where
  "nearest_even m r Q =
     (if 2 * r < Q then m else if Q < 2 * r then m + 1 else if even m then m else m + 1)"

definition round_even :: "nat \<Rightarrow> nat \<Rightarrow> nat" where
  "round_even P Q = nearest_even (P div Q) (P mod Q) Q"

text \<open>
  The exponent of the binade of \<open>p / q\<close>: the \<open>e\<close> with \<open>2^52 \<le> (p / q) / 2^e < 2^53\<close>,
  but never below the subnormal exponent \<open>-1074\<close>. The bit lengths of \<open>p\<close> and \<open>q\<close> give
  it up to one (\<open>e0\<close> or \<open>e0 + 1\<close>); a comparison decides.
\<close>

definition binade :: "int \<Rightarrow> nat \<Rightarrow> nat \<Rightarrow> int" where
  "binade e0 p q =
     (if 2 ^ 52 * snd (quot_at (e0 + 1) p q) \<le> fst (quot_at (e0 + 1) p q) then e0 + 1 else e0)"

definition exp_of :: "nat \<Rightarrow> nat \<Rightarrow> int" where
  "exp_of p q = max (binade (int (bitlen p) - int (bitlen q) - 53) p q) (- 1074)"

text \<open>
  Rounding of the rational \<open>(-1)^s * p / q\<close> (with \<open>0 < q\<close>) to binary64: the significand
  is the nearest integer to \<open>(p / q) / 2^e\<close> at the exponent \<open>e\<close> of the binade; a
  significand that rounds up to \<open>2^53\<close> moves to the next binade, and an exponent above
  \<open>971\<close> overflows to infinity.
\<close>

definition pack :: "bool \<Rightarrow> int \<Rightarrow> nat \<Rightarrow> double" where
  "pack s e m =
     (if m = 2 ^ 53 then (if 971 < e + 1 then DInf s else DFin s (2 ^ 52) (e + 1))
      else if 971 < e then DInf s
      else DFin s m e)"

definition round_at :: "bool \<Rightarrow> nat \<Rightarrow> nat \<Rightarrow> int \<Rightarrow> double" where
  "round_at s p q e = pack s e (round_even (fst (quot_at e p q)) (snd (quot_at e p q)))"

definition round_double :: "bool \<Rightarrow> nat \<Rightarrow> nat \<Rightarrow> double" where
  "round_double s p q = (if p = 0 then DFin s 0 (- 1074) else round_at s p q (exp_of p q))"

text \<open>Rounding of \<open>(-1)^s * (p / q) * 2^k\<close>.\<close>

definition round_scaled :: "bool \<Rightarrow> nat \<Rightarrow> nat \<Rightarrow> int \<Rightarrow> double" where
  "round_scaled s p q k =
     (if 0 \<le> k then round_double s (p * 2 ^ nat k) q else round_double s p (q * 2 ^ nat (- k)))"

text \<open>The real number a finite double stands for (0 for infinities and NaN).\<close>

fun valof :: "double \<Rightarrow> real" where
  "valof (DFin s m e) =
     (if s then - 1 else 1) * real m * (if 0 \<le> e then 2 ^ nat e else 1 / 2 ^ nat (- e))"
| "valof (DInf s) = 0"
| "valof DNaN = 0"

fun is_finite :: "double \<Rightarrow> bool" where
  "is_finite (DFin s m e) = True"
| "is_finite (DInf s) = False"
| "is_finite DNaN = False"

text \<open>The C operators \<^verbatim>\<open>*\<close>, \<^verbatim>\<open>/\<close>, \<^verbatim>\<open>+\<close> and unary \<^verbatim>\<open>-\<close> on doubles.\<close>

fun dmul :: "double \<Rightarrow> double \<Rightarrow> double" where
  "dmul DNaN b = DNaN"
| "dmul (DInf s) DNaN = DNaN"
| "dmul (DFin s m e) DNaN = DNaN"
| "dmul (DInf s) (DInf t) = DInf (s \<noteq> t)"
| "dmul (DInf s) (DFin t n f) = (if n = 0 then DNaN else DInf (s \<noteq> t))"
| "dmul (DFin s m e) (DInf t) = (if m = 0 then DNaN else DInf (s \<noteq> t))"
| "dmul (DFin s m e) (DFin t n f) = round_scaled (s \<noteq> t) (m * n) 1 (e + f)"

fun ddiv :: "double \<Rightarrow> double \<Rightarrow> double" where
  "ddiv DNaN b = DNaN"
| "ddiv (DInf s) DNaN = DNaN"
| "ddiv (DFin s m e) DNaN = DNaN"
| "ddiv (DInf s) (DInf t) = DNaN"
| "ddiv (DInf s) (DFin t n f) = DInf (s \<noteq> t)"
| "ddiv (DFin s m e) (DInf t) = DFin (s \<noteq> t) 0 (- 1074)"
| "ddiv (DFin s m e) (DFin t n f) =
     (if n = 0 then (if m = 0 then DNaN else DInf (s \<noteq> t))
      else round_scaled (s \<noteq> t) m n (e - f))"

text \<open>Rounding of the integer \<open>c\<close> times \<open>2^k\<close>; an exact zero sum is \<open>+0\<close>.\<close>

definition round_signed :: "int \<Rightarrow> int \<Rightarrow> double" where
  "round_signed c k =
     (if c = 0 then DFin False 0 (- 1074) else round_scaled (c < 0) (nat \<bar>c\<bar>) 1 k)"

fun dadd :: "double \<Rightarrow> double \<Rightarrow> double" where
  "dadd DNaN b = DNaN"
| "dadd (DInf s) DNaN = DNaN"
| "dadd (DFin s m e) DNaN = DNaN"
| "dadd (DInf s) (DInf t) = (if s = t then DInf s else DNaN)"
| "dadd (DInf s) (DFin t n f) = DInf s"
| "dadd (DFin s m e) (DInf t) = DInf t"
| "dadd (DFin s m e) (DFin t n f) =
     (if m = 0 \<and> n = 0 then DFin (s \<and> t) 0 (- 1074)
      else if m = 0 then DFin t n f
      else if n = 0 then DFin s m e
      else round_signed
             ((if s then - 1 else 1) * int m * 2 ^ nat (e - min e f)
                + (if t then - 1 else 1) * int n * 2 ^ nat (f - min e f))
             (min e f))"

fun dneg :: "double \<Rightarrow> double" where
  "dneg (DFin s m e) = DFin (\<not> s) m e"
| "dneg (DInf s) = DInf (\<not> s)"
| "dneg DNaN = DNaN"

text \<open>
  A decimal floating constant of the source text, \<open>digits / 10^k\<close> with a sign, converted
  to the nearest double.
\<close>

definition double_of_decimal :: "bool \<Rightarrow> nat \<Rightarrow> nat \<Rightarrow> double" where
  "double_of_decimal s digits k = round_double s digits (10 ^ k)"

subsection \<open>The wide integer \<^verbatim>\<open>__int128\<close> and the conversions\<close>

text \<open>
  The fixed-point fields are \<^verbatim>\<open>__int128\<close>: 128-bit words read in two's complement.
  \<^verbatim>\<open>+=\<close> on them is modelled as the wrapping addition of the machine.

  \<^verbatim>\<open>(double)i\<close> rounds the integer to the nearest double. \<^verbatim>\<open>(__int128)d\<close> discards the
  fractional part (truncation toward zero); when \<open>d\<close> is a NaN, an infinity, or its integral
  part is not a value of \<^verbatim>\<open>__int128\<close>, C leaves the behaviour undefined: the model
  returns \<open>None\<close>.
\<close>

type_synonym int128 = "128 word"

definition double_of_int :: "int \<Rightarrow> double" where
  "double_of_int v = round_double (v < 0) (nat \<bar>v\<bar>) 1"

definition double_of_int128 :: "int128 \<Rightarrow> double" where
  "double_of_int128 w = double_of_int (sint w)"

fun trunc_double :: "double \<Rightarrow> int option" where
  "trunc_double (DFin s m e) =
     Some ((if s then - 1 else 1) * int (if 0 \<le> e then m * 2 ^ nat e else m div 2 ^ nat (- e)))"
| "trunc_double (DInf s) = None"
| "trunc_double DNaN = None"

definition int128_of_int :: "int \<Rightarrow> int128 option" where
  "int128_of_int v = (if - (2 ^ 127) \<le> v \<and> v < 2 ^ 127 then Some (word_of_int v) else None)"

definition int128_of_double :: "double \<Rightarrow> int128 option" where
  "int128_of_double d = (case trunc_double d of None \<Rightarrow> None | Some v \<Rightarrow> int128_of_int v)"


section \<open>The data of the integrator\<close>

text \<open>
  The structures are declared in \<^verbatim>\<open>rebound.h\<close>. Of \<^verbatim>\<open>struct reb_particle\<close> the integrator uses
  the position \<^verbatim>\<open>x, y, z\<close>, the velocity \<^verbatim>\<open>vx, vy, vz\<close> and the acceleration \<^verbatim>\<open>ax, ay, az\<close>;
  the mass \<^verbatim>\<open>m\<close> is carried along. \<^verbatim>\<open>struct reb_particle_int\<close> has the six fixed-point
  fields \<^verbatim>\<open>x, y, z, vx, vy, vz\<close>. The two structures share field names in C; the selectors
  here are prefixed \<open>p_\<close> (floating point) and \<open>i_\<close> (fixed point).
\<close>

record reb_particle =
  p_x :: double
  p_y :: double
  p_z :: double
  p_vx :: double
  p_vy :: double
  p_vz :: double
  p_ax :: double
  p_ay :: double
  p_az :: double
  p_m :: double

record reb_particle_int =
  i_x :: int128
  i_y :: int128
  i_z :: int128
  i_vx :: int128
  i_vy :: int128
  i_vz :: int128

text \<open>
  An array reached through a pointer is the list of its cells; \<open>None\<close> is the null pointer.
  Reading or writing a cell that is not there is undefined behaviour (\<open>None\<close> as a result).
\<close>

record reb_simulation_integrator_janus =
  scale :: double
  allocated_N :: nat
  p_curr :: "reb_particle_int list option"

text \<open>
  Of \<^verbatim>\<open>struct reb_simulation\<close> the file touches the fields below; whatever else the host
  simulation keeps is the extension part of the record.
\<close>

record reb_simulation =
  t :: double
  dt :: double
  N :: nat
  gravity_ignore_terms :: nat
  particles :: "reb_particle list"
  ri_janus :: reb_simulation_integrator_janus

section \<open>Loops over the first \<open>n\<close> cells of an array\<close>

text \<open>
  Every loop of the file is \<^verbatim>\<open>for (i = 0; i < N; i++)\<close> with a body that reads and writes
  cell \<open>i\<close> only. \<open>for_each n f xs\<close> runs the body \<open>f\<close> on the first \<open>n\<close> cells of \<open>xs\<close> in
  order; \<open>for_each2\<close> does so for a body that also reads cell \<open>i\<close> of a second array.
  A missing cell or an undefined body makes the whole loop undefined.
\<close>

fun for_each :: "nat \<Rightarrow> ('a \<Rightarrow> 'a option) \<Rightarrow> 'a list \<Rightarrow> 'a list option" where
  "for_each 0 f xs = Some xs"
| "for_each (Suc n) f [] = None"
| "for_each (Suc n) f (x # xs) =
     (case f x of
        None \<Rightarrow> None
      | Some x' \<Rightarrow> map_option ((#) x') (for_each n f xs))"

fun for_each2 :: "nat \<Rightarrow> ('a \<Rightarrow> 'b \<Rightarrow> 'a option) \<Rightarrow> 'a list \<Rightarrow> 'b list \<Rightarrow> 'a list option" where
  "for_each2 0 f xs ys = Some xs"
| "for_each2 (Suc n) f [] ys = None"
| "for_each2 (Suc n) f (x # xs) [] = None"
| "for_each2 (Suc n) f (x # xs) (y # ys) =
     (case f x y of
        None \<Rightarrow> None
      | Some x' \<Rightarrow> map_option ((#) x') (for_each2 n f xs ys))"

text \<open>The cells behind a pointer, and a loop that updates them in place.\<close>

definition cells :: "'a list option \<Rightarrow> 'a list" where
  "cells p = (case p of None \<Rightarrow> [] | Some xs \<Rightarrow> xs)"

definition in_place :: "'a list option \<Rightarrow> ('a list \<Rightarrow> 'a list option) \<Rightarrow> 'a list option option" where
  "in_place p f =
     (case p of
        None \<Rightarrow> map_option (\<lambda>_. None) (f [])
      | Some xs \<Rightarrow> map_option Some (f xs))"

text \<open>
  \<^verbatim>\<open>realloc(p, sizeof(struct reb_particle_int) * n)\<close>: a block of \<open>n\<close> cells that keeps the old
  cells as far as they fit. The new cells are indeterminate in C (here zero; \<open>to_int\<close>
  overwrites all of them before anything reads them). Allocation is taken to succeed.
\<close>

definition zero_particle_int :: reb_particle_int where
  "zero_particle_int = \<lparr>i_x = 0, i_y = 0, i_z = 0, i_vx = 0, i_vy = 0, i_vz = 0\<rparr>"

definition realloc_cells :: "reb_particle_int list option \<Rightarrow> nat \<Rightarrow> reb_particle_int list option" where
  "realloc_cells p n =
     Some (take n (cells p) @ replicate (n - length (cells p)) zero_particle_int)"

section \<open>The functions of \<^verbatim>\<open>integrator_janus.c\<close>\<close>

subsection \<open>\<^verbatim>\<open>to_int\<close> and \<^verbatim>\<open>to_double\<close>\<close>

definition to_int_body :: "double \<Rightarrow> reb_particle_int \<Rightarrow> reb_particle \<Rightarrow> reb_particle_int option" where
  "to_int_body int_scale q p = do {
     x' \<leftarrow> int128_of_double (dmul (p_x p) int_scale);
     y' \<leftarrow> int128_of_double (dmul (p_y p) int_scale);
     z' \<leftarrow> int128_of_double (dmul (p_z p) int_scale);
     vx' \<leftarrow> int128_of_double (dmul (p_vx p) int_scale);
     vy' \<leftarrow> int128_of_double (dmul (p_vy p) int_scale);
     vz' \<leftarrow> int128_of_double (dmul (p_vz p) int_scale);
     Some (q\<lparr>i_x := x', i_y := y', i_z := z', i_vx := vx', i_vy := vy', i_vz := vz'\<rparr>)
   }"

definition to_int ::
  "reb_particle_int list option \<Rightarrow> reb_particle list \<Rightarrow> nat \<Rightarrow> double \<Rightarrow> reb_particle_int list option option" where
  "to_int psi ps n int_scale = in_place psi (\<lambda>qs. for_each2 n (to_int_body int_scale) qs ps)"

definition to_double_body :: "double \<Rightarrow> reb_particle \<Rightarrow> reb_particle_int \<Rightarrow> reb_particle option" where
  "to_double_body int_scale p q =
     Some (p\<lparr>p_x := ddiv (double_of_int128 (i_x q)) int_scale,
             p_y := ddiv (double_of_int128 (i_y q)) int_scale,
             p_z := ddiv (double_of_int128 (i_z q)) int_scale,
             p_vx := ddiv (double_of_int128 (i_vx q)) int_scale,
             p_vy := ddiv (double_of_int128 (i_vy q)) int_scale,
             p_vz := ddiv (double_of_int128 (i_vz q)) int_scale\<rparr>)"

definition to_double ::
  "reb_particle list \<Rightarrow> reb_particle_int list option \<Rightarrow> nat \<Rightarrow> double \<Rightarrow> reb_particle list option" where
  "to_double ps psi n int_scale = for_each2 n (to_double_body int_scale) ps (cells psi)"

subsection \<open>The force evaluation of the host simulation\<close>

text \<open>
  Modelled from the spec: \<^verbatim>\<open>reb_update_acceleration\<close> is called by \<^verbatim>\<open>leapfrog\<close> but defined in
  the host simulation, outside this file. The spec describes it as the collaborator that
  "recomputes ax, ay, az for all particles" and is otherwise opaque. The force law is the
  parameter \<open>force\<close>: \<open>force r i\<close> is the acceleration that the evaluation stores into
  particle \<open>i\<close> when it runs on the simulation \<open>r\<close>; it may depend on anything in \<open>r\<close>.
\<close>

type_synonym 'a force_law = "'a reb_simulation_scheme \<Rightarrow> nat \<Rightarrow> double \<times> double \<times> double"

fun set_acc :: "double \<times> double \<times> double \<Rightarrow> reb_particle \<Rightarrow> reb_particle" where
  "set_acc (a1, a2, a3) p = p\<lparr>p_ax := a1, p_ay := a2, p_az := a3\<rparr>"

definition reb_update_acceleration ::
  "'a force_law \<Rightarrow> 'a reb_simulation_scheme \<Rightarrow> 'a reb_simulation_scheme" where
  "reb_update_acceleration force r =
     r\<lparr>particles :=
         map (\<lambda>(i, p). if i < N r then set_acc (force r i) p else p)
           (enumerate 0 (particles r))\<rparr>"

subsection \<open>\<^verbatim>\<open>leapfrog\<close>\<close>

text \<open>The constant \<^verbatim>\<open>2.\<close> of the half-drift.\<close>

definition two :: double where
  "two = double_of_decimal False 2 0"

definition drift_body :: "double \<Rightarrow> reb_particle_int \<Rightarrow> reb_particle_int option" where
  "drift_body dt' q = do {
     dx \<leftarrow> int128_of_double (dmul (ddiv dt' two) (double_of_int128 (i_vx q)));
     dy \<leftarrow> int128_of_double (dmul (ddiv dt' two) (double_of_int128 (i_vy q)));
     dz \<leftarrow> int128_of_double (dmul (ddiv dt' two) (double_of_int128 (i_vz q)));
     Some (q\<lparr>i_x := i_x q + dx, i_y := i_y q + dy, i_z := i_z q + dz\<rparr>)
   }"

definition kick_body ::
  "double \<Rightarrow> double \<Rightarrow> reb_particle_int \<Rightarrow> reb_particle \<Rightarrow> reb_particle_int option" where
  "kick_body int_scale dt' q p = do {
     dvx \<leftarrow> int128_of_double (dmul (dmul int_scale dt') (p_ax p));
     dvy \<leftarrow> int128_of_double (dmul (dmul int_scale dt') (p_ay p));
     dvz \<leftarrow> int128_of_double (dmul (dmul int_scale dt') (p_az p));
     Some (q\<lparr>i_vx := i_vx q + dvx, i_vy := i_vy q + dvy, i_vz := i_vz q + dvz\<rparr>)
   }"

text \<open>
  The sub-step is split where the force evaluation is called: \<open>leapfrog_pre\<close> is the first
  half-drift, the reset of the hint and \<^verbatim>\<open>to_double\<close>; \<open>leapfrog_post\<close> is the kick and the
  second half-drift, run with the locals \<^verbatim>\<open>N\<close> and \<^verbatim>\<open>int_scale\<close> that were read on entry.
\<close>

definition leapfrog_pre ::
  "'a reb_simulation_scheme \<Rightarrow> double \<Rightarrow> 'a reb_simulation_scheme option" where
  "leapfrog_pre r dt' = do {
     let n = N r;
     let int_scale = scale (ri_janus r);
     pc \<leftarrow> in_place (p_curr (ri_janus r)) (for_each n (drift_body dt'));
     let r1 = r\<lparr>ri_janus := (ri_janus r)\<lparr>p_curr := pc\<rparr>\<rparr>;
     let r2 = r1\<lparr>gravity_ignore_terms := 0\<rparr>;
     ps \<leftarrow> to_double (particles r2) (p_curr (ri_janus r2)) n int_scale;
     Some (r2\<lparr>particles := ps\<rparr>)
   }"

definition leapfrog_post ::
  "nat \<Rightarrow> double \<Rightarrow> 'a reb_simulation_scheme \<Rightarrow> double \<Rightarrow> 'a reb_simulation_scheme option" where
  "leapfrog_post n int_scale r dt' = do {
     pc \<leftarrow> in_place (p_curr (ri_janus r))
             (\<lambda>qs. for_each2 n (kick_body int_scale dt') qs (particles r));
     pc' \<leftarrow> in_place pc (for_each n (drift_body dt'));
     Some (r\<lparr>ri_janus := (ri_janus r)\<lparr>p_curr := pc'\<rparr>\<rparr>)
   }"

definition leapfrog ::
  "'a force_law \<Rightarrow> 'a reb_simulation_scheme \<Rightarrow> double \<Rightarrow> 'a reb_simulation_scheme option" where
  "leapfrog force r dt' = do {
     r1 \<leftarrow> leapfrog_pre r dt';
     leapfrog_post (N r) (scale (ri_janus r)) (reb_update_acceleration force r1) dt'
   }"

subsection \<open>The composition coefficients\<close>

definition gamma1 :: double where
  "gamma1 = double_of_decimal False 39216144400731413928 20"

definition gamma2 :: double where
  "gamma2 = double_of_decimal False 33259913678935943860 20"

definition gamma3 :: double where
  "gamma3 = double_of_decimal True 70624617255763935981 20"

definition gamma4 :: double where
  "gamma4 = double_of_decimal False 82213596293550800230 21"

definition gamma5 :: double where
  "gamma5 = double_of_decimal False 79854399093482996340 20"

subsection \<open>\<^verbatim>\<open>reb_integrator_janus_part1\<close>, \<^verbatim>\<open>part2\<close>, \<^verbatim>\<open>synchronize\<close>, \<^verbatim>\<open>reset\<close>\<close>

text \<open>The block at the top of \<^verbatim>\<open>part1\<close>: the shadow array follows the particle count.\<close>

definition janus_allocate :: "'a reb_simulation_scheme \<Rightarrow> 'a reb_simulation_scheme option" where
  "janus_allocate r =
     (let n = N r in
      if allocated_N (ri_janus r) \<noteq> n then do {
        let int_scale = scale (ri_janus r);
        let r1 = r\<lparr>ri_janus := (ri_janus r)\<lparr>allocated_N := n\<rparr>\<rparr>;
        let r2 = r1\<lparr>ri_janus := (ri_janus r1)\<lparr>p_curr := realloc_cells (p_curr (ri_janus r1)) n\<rparr>\<rparr>;
        pc \<leftarrow> to_int (p_curr (ri_janus r2)) (particles r2) n int_scale;
        Some (r2\<lparr>ri_janus := (ri_janus r2)\<lparr>p_curr := pc\<rparr>\<rparr>)
      } else Some r)"

definition reb_integrator_janus_part1 ::
  "'a force_law \<Rightarrow> 'a reb_simulation_scheme \<Rightarrow> 'a reb_simulation_scheme option" where
  "reb_integrator_janus_part1 force r = do {
     r0 \<leftarrow> janus_allocate (r\<lparr>gravity_ignore_terms := 0\<rparr>);
     r1 \<leftarrow> leapfrog force r0 (dmul gamma1 (dt r0));
     r2 \<leftarrow> leapfrog force r1 (dmul gamma2 (dt r1));
     r3 \<leftarrow> leapfrog force r2 (dmul gamma3 (dt r2));
     r4 \<leftarrow> leapfrog force r3 (dmul gamma4 (dt r3));
     r5 \<leftarrow> leapfrog force r4 (dmul gamma5 (dt r4));
     r6 \<leftarrow> leapfrog force r5 (dmul gamma4 (dt r5));
     r7 \<leftarrow> leapfrog force r6 (dmul gamma3 (dt r6));
     r8 \<leftarrow> leapfrog force r7 (dmul gamma2 (dt r7));
     leapfrog force r8 (dmul gamma1 (dt r8))
   }"

definition reb_integrator_janus_part2 ::
  "'a reb_simulation_scheme \<Rightarrow> 'a reb_simulation_scheme option" where
  "reb_integrator_janus_part2 r = do {
     let n = N r;
     let int_scale = scale (ri_janus r);
     ps \<leftarrow> to_double (particles r) (p_curr (ri_janus r)) n int_scale;
     let r1 = r\<lparr>particles := ps\<rparr>;
     Some (r1\<lparr>t := dadd (t r1) (dt r1)\<rparr>)
   }"

definition reb_integrator_janus_synchronize ::
  "'a reb_simulation_scheme \<Rightarrow> 'a reb_simulation_scheme" where
  "reb_integrator_janus_synchronize r = r"

definition reb_integrator_janus_reset ::
  "'a reb_simulation_scheme \<Rightarrow> 'a reb_simulation_scheme" where
  "reb_integrator_janus_reset r =
     (let r1 = r\<lparr>ri_janus := (ri_janus r)\<lparr>allocated_N := 0\<rparr>\<rparr>
      in if p_curr (ri_janus r1) \<noteq> None
         then r1\<lparr>ri_janus := (ri_janus r1)\<lparr>p_curr := None\<rparr>\<rparr>
         else r1)"

section \<open>Reset\<close>

text \<open>
  C7. \<^verbatim>\<open>reb_integrator_janus_reset\<close> clears \<^verbatim>\<open>allocated_N\<close> and leaves the shadow pointer
  null, touching nothing else; on a state that is already deallocated it changes nothing;
  and a second reset after a reset changes nothing.
\<close>

theorem reset_deallocates_idempotent:
  "reb_integrator_janus_reset r = r\<lparr>ri_janus := (ri_janus r)\<lparr>allocated_N := 0, p_curr := None\<rparr>\<rparr>
   \<and> allocated_N (ri_janus (reb_integrator_janus_reset r)) = 0
   \<and> p_curr (ri_janus (reb_integrator_janus_reset r)) = None
   \<and> reb_integrator_janus_reset (r\<lparr>ri_janus := (ri_janus r)\<lparr>allocated_N := 0, p_curr := None\<rparr>\<rparr>)
       = r\<lparr>ri_janus := (ri_janus r)\<lparr>allocated_N := 0, p_curr := None\<rparr>\<rparr>
   \<and> reb_integrator_janus_reset (reb_integrator_janus_reset r) = reb_integrator_janus_reset r"
  by (simp add: reb_integrator_janus_reset_def Let_def)

end
